theory Spec2Isabelle
  imports Complex_Main
begin

section \<open>Mass mailing service (bot/services/mailing.py)\<close>

text \<open>
  The module sends one message to a list of Telegram users through a \<open>Bot\<close> object,
  counts what happened to each recipient and returns a \<open>MailingResult\<close>. The model
  below follows the source function by function. The bot is the only collaborator: it is
  a transition function on an abstract bot state that answers every call either with a
  normal return or with a raised exception. Everything the module does to the outside
  (calls of the bot, \<open>asyncio.sleep\<close>, log records) is appended to a trace, and a
  clock that only \<open>asyncio.sleep\<close> advances stamps every call of the bot. Durations
  are exact rationals: \<open>1.0 / rps\<close> is the rational \<open>1 / rps\<close>, not its nearest
  float.
\<close>

subsection \<open>Data\<close>

type_synonym markup = string

text \<open>The dataclass \<open>MessageContent\<close> (lines 18-25).\<close>

record MessageContent =
  "text" :: "string option"
  media_file_id :: "string option"
  media_type :: "string option"
  reply_markup :: "markup option"

text \<open>
  Python's truth value of a \<open>str | None\<close>: \<open>None\<close> and the empty string are false.
\<close>

fun truthy :: "string option \<Rightarrow> bool" where
  "truthy None = False"
| "truthy (Some s) = (s \<noteq> [])"

text \<open>
  The exceptions that reach the handlers of the module. \<open>TelegramAPIError\<close> stands
  for a \<open>TelegramAPIError\<close> that is of neither of the two subclasses caught before it;
  its argument is the attribute \<open>error_code\<close>, \<open>None\<close> when the object has no
  such attribute. \<open>OtherException\<close> is any other subclass of \<open>Exception\<close>.
  What is not an \<open>Exception\<close> (the cancellation of the task, an interrupt) is not
  an answer of the bot and is outside the model.
\<close>

datatype exn =
    TelegramRetryAfter rat
  | TelegramForbiddenError
  | TelegramAPIError "int option"
  | ValueError
  | ZeroDivisionError
  | OtherException

text \<open>
  The five methods of \<open>Bot\<close> that the module calls, with their arguments: the chat
  id, the text or the file id, the caption (media only) and the reply markup.
\<close>

datatype call =
    send_message int string "markup option"
  | send_photo int string "string option" "markup option"
  | send_video int string "string option" "markup option"
  | send_animation int string "string option" "markup option"
  | send_document int string "string option" "markup option"

fun chat_id :: "call \<Rightarrow> int" where
  "chat_id (send_message u _ _) = u"
| "chat_id (send_photo u _ _ _) = u"
| "chat_id (send_video u _ _ _) = u"
| "chat_id (send_animation u _ _ _) = u"
| "chat_id (send_document u _ _ _) = u"

type_synonym 'b transport = "'b \<Rightarrow> call \<Rightarrow> (exn + unit) \<times> 'b"

datatype level = DEBUG | INFO | WARNING | ERROR

text \<open>
  \<open>Call t again c r\<close>: at clock \<open>t\<close> the bot was called with \<open>c\<close> and answered
  \<open>r\<close>; \<open>again\<close> tells the call in the retry block (lines 89-92) from the others.
\<close>

datatype event =
    Call rat bool call "exn + unit"
  | Sleep rat
  | Log level

text \<open>
  The local counters of \<open>send_mass_message\<close> (lines 56-59), which are also fields of
  the dataclass \<open>MailingResult\<close> (lines 28-37).
\<close>

record counts =
  sent_count :: int
  failed_count :: int
  skipped_count :: int
  error_summary :: "string \<rightharpoonup> int"

record MailingResult = counts +
  total_recipients :: int
  duration_seconds :: rat

record 'b state = counts +
  bot :: 'b
  clock :: rat
  trace :: "event list"

text \<open>The class \<open>RateLimits\<close> (bot/config/settings.py, lines 11-17) and its defaults.\<close>

record RateLimits =
  broadcast_rps :: int
  announce_rps :: int
  burst :: int
  max_retries :: int

definition default_RateLimits :: RateLimits where
  "default_RateLimits =
     \<lparr>broadcast_rps = 20, announce_rps = 20, burst = 5, max_retries = 5\<rparr>"

subsection \<open>Effects\<close>

definition log :: "level \<Rightarrow> ('b, 'x) state_scheme \<Rightarrow> ('b, 'x) state_scheme" where
  "log lv st = st\<lparr>trace := trace st @ [Log lv]\<rparr>"

text \<open>\<open>asyncio.sleep(d)\<close> returns at once when \<open>d\<close> is not positive.\<close>

definition sleep :: "rat \<Rightarrow> ('b, 'x) state_scheme \<Rightarrow> ('b, 'x) state_scheme" where
  "sleep d st = st\<lparr>clock := clock st + max 0 d, trace := trace st @ [Sleep d]\<rparr>"

definition invoke ::
  "'b transport \<Rightarrow> bool \<Rightarrow> call \<Rightarrow> ('b, 'x) state_scheme
    \<Rightarrow> (exn + unit) \<times> ('b, 'x) state_scheme" where
  "invoke T again c st =
     (case T (bot st) c of
        (r, b') \<Rightarrow> (r, st\<lparr>bot := b', trace := trace st @ [Call (clock st) again c r]\<rparr>))"

subsection \<open>Rendering an integer, as an f-string does\<close>

definition digit_char :: "nat \<Rightarrow> char" where
  "digit_char d = char_of (48 + d)"

function str_nat :: "nat \<Rightarrow> string" where
  "str_nat n = (if n < 10 then [digit_char n] else str_nat (n div 10) @ [digit_char (n mod 10)])"
  by pat_completeness auto
termination
  by (relation "measure (\<lambda>n. n)") auto

declare str_nat.simps [simp del]

definition str_int :: "int \<Rightarrow> string" where
  "str_int i = (if i < 0 then CHR ''-'' # str_nat (nat (- i)) else str_nat (nat i))"

subsection \<open>The functions of the module\<close>

text \<open>\<open>_send_media_message\<close> (lines 138-154).\<close>

definition send_media_message ::
  "'b transport \<Rightarrow> bool \<Rightarrow> int \<Rightarrow> MessageContent \<Rightarrow> ('b, 'x) state_scheme
    \<Rightarrow> (exn + unit) \<times> ('b, 'x) state_scheme" where
  "send_media_message T again user_id content st =
     (case (media_file_id content, media_type content) of
        (Some file_id, Some kind) \<Rightarrow>
          if file_id = [] \<or> kind = [] then (Inl ValueError, st)
          else
            let caption = (if truthy (text content) then text content else None) in
            if kind = ''photo'' then
              invoke T again (send_photo user_id file_id caption (reply_markup content)) st
            else if kind = ''video'' then
              invoke T again (send_video user_id file_id caption (reply_markup content)) st
            else if kind = ''animation'' then
              invoke T again (send_animation user_id file_id caption (reply_markup content)) st
            else if kind = ''document'' then
              invoke T again (send_document user_id file_id caption (reply_markup content)) st
            else (Inl ValueError, st)
      | _ \<Rightarrow> (Inl ValueError, st))"

text \<open>\<open>_update_error_summary\<close> (lines 157-159).\<close>

definition update_error_summary :: "(string \<rightharpoonup> int) \<Rightarrow> string \<Rightarrow> (string \<rightharpoonup> int)" where
  "update_error_summary summary error_type =
     summary(error_type \<mapsto> (case summary error_type of None \<Rightarrow> 0 | Some n \<Rightarrow> n) + 1)"

text \<open>
  The choice between media and text that the module writes three times (lines 68-75,
  89-92 and 175-181). \<open>Inr True\<close>: a call of the bot returned; \<open>Inr False\<close>: neither
  condition held; \<open>Inl e\<close>: \<open>e\<close> was raised.
\<close>

definition send_content ::
  "'b transport \<Rightarrow> bool \<Rightarrow> int \<Rightarrow> MessageContent \<Rightarrow> ('b, 'x) state_scheme
    \<Rightarrow> (exn + bool) \<times> ('b, 'x) state_scheme" where
  "send_content T again user_id content st =
     (if truthy (media_file_id content) \<and> truthy (media_type content) then
        (case send_media_message T again user_id content st of
           (Inl e, st') \<Rightarrow> (Inl e, st')
         | (Inr _, st') \<Rightarrow> (Inr True, st'))
      else
        (case text content of
           Some t \<Rightarrow>
             if t \<noteq> [] then
               (case invoke T again (send_message user_id t (reply_markup content)) st of
                  (Inl e, st') \<Rightarrow> (Inl e, st')
                | (Inr _, st') \<Rightarrow> (Inr True, st'))
             else (Inr False, st)
         | None \<Rightarrow> (Inr False, st)))"

definition failed ::
  "level \<Rightarrow> string \<Rightarrow> ('b, 'x) state_scheme \<Rightarrow> ('b, 'x) state_scheme" where
  "failed lv error_type st =
     (log lv st)\<lparr>failed_count := failed_count st + 1,
                 error_summary := update_error_summary (error_summary st) error_type\<rparr>"

text \<open>The handlers of the outer \<open>try\<close> (lines 83-115), in the order of the source.\<close>

definition handler ::
  "'b transport \<Rightarrow> MessageContent \<Rightarrow> int \<Rightarrow> exn \<Rightarrow> ('b, 'x) state_scheme
    \<Rightarrow> ('b, 'x) state_scheme" where
  "handler T content user_id e st =
     (case e of
        TelegramRetryAfter retry_after \<Rightarrow>
          (case send_content T True user_id content (sleep retry_after (log WARNING st)) of
             (Inr _, st') \<Rightarrow> st'\<lparr>sent_count := sent_count st' + 1\<rparr>
           | (Inl _, st') \<Rightarrow> failed ERROR ''retry_failed'' st')
      | TelegramForbiddenError \<Rightarrow> failed DEBUG ''blocked'' st
      | TelegramAPIError error_code \<Rightarrow>
          failed WARNING
            (case error_code of Some c \<Rightarrow> ''api_error_'' @ str_int c | None \<Rightarrow> ''api_error'') st
      | _ \<Rightarrow> failed ERROR ''unexpected'' st)"

text \<open>The progress record of every hundredth recipient (lines 118-119).\<close>

definition progress :: "nat \<Rightarrow> ('b, 'x) state_scheme \<Rightarrow> ('b, 'x) state_scheme" where
  "progress idx st = (if idx mod 100 = 0 then log INFO st else st)"

text \<open>
  The body of the loop (lines 66-119) for the recipient \<open>user_id\<close> at the 1-based
  position \<open>idx\<close> of a list of \<open>n\<close> recipients. The \<open>continue\<close> of the empty
  content leaves the body before the progress record.
\<close>

definition process_recipient ::
  "'b transport \<Rightarrow> nat \<Rightarrow> rat \<Rightarrow> MessageContent \<Rightarrow> nat \<Rightarrow> int \<Rightarrow> ('b, 'x) state_scheme
    \<Rightarrow> ('b, 'x) state_scheme" where
  "process_recipient T n delay content idx user_id st =
     (case send_content T False user_id content st of
        (Inr False, st') \<Rightarrow> (log WARNING st')\<lparr>skipped_count := skipped_count st' + 1\<rparr>
      | (Inr True, st') \<Rightarrow>
          progress idx
            (let st'' = st'\<lparr>sent_count := sent_count st' + 1\<rparr>
             in if idx < n then sleep delay st'' else st'')
      | (Inl e, st') \<Rightarrow> progress idx (handler T content user_id e st'))"

text \<open>The \<open>for\<close> loop over \<open>enumerate(recipients, 1)\<close> (line 65).\<close>

fun loop ::
  "'b transport \<Rightarrow> nat \<Rightarrow> rat \<Rightarrow> MessageContent \<Rightarrow> nat \<Rightarrow> int list \<Rightarrow> ('b, 'x) state_scheme
    \<Rightarrow> ('b, 'x) state_scheme" where
  "loop T n delay content idx [] st = st"
| "loop T n delay content idx (user_id # rest) st =
     loop T n delay content (Suc idx) rest (process_recipient T n delay content idx user_id st)"

text \<open>
  \<open>send_mass_message\<close> (lines 40-135). The division of line 61 is outside every
  \<open>try\<close>: with \<open>rps = 0\<close> it raises before the first log record. The clock starts
  at 0, so the final clock is the duration. The result comes with the final state, which
  holds the bot and the trace.
\<close>

definition send_mass_message ::
  "'b transport \<Rightarrow> 'b \<Rightarrow> int list \<Rightarrow> MessageContent \<Rightarrow> int
    \<Rightarrow> exn + (MailingResult \<times> 'b state)" where
  "send_mass_message T b recipients content rps =
     (if rps = 0 then Inl ZeroDivisionError
      else
        let delay = 1 / of_int rps;
            st0 = \<lparr>sent_count = 0, failed_count = 0, skipped_count = 0,
                   error_summary = Map.empty, bot = b, clock = 0, trace = []\<rparr>;
            st1 = loop T (length recipients) delay content 1 recipients (log INFO st0);
            st2 = log INFO st1
        in Inr (\<lparr>sent_count = sent_count st2, failed_count = failed_count st2,
                  skipped_count = skipped_count st2, error_summary = error_summary st2,
                  total_recipients = int (length recipients),
                  duration_seconds = clock st2 - 0\<rparr>, st2))"

text \<open>\<open>send_to_channel\<close> (lines 162-188).\<close>

definition send_to_channel ::
  "'b transport \<Rightarrow> int \<Rightarrow> MessageContent \<Rightarrow> ('b, 'x) state_scheme
    \<Rightarrow> bool \<times> ('b, 'x) state_scheme" where
  "send_to_channel T channel_id content st =
     (case send_content T False channel_id content st of
        (Inr False, st') \<Rightarrow> (False, log ERROR st')
      | (Inr True, st') \<Rightarrow> (True, log INFO st')
      | (Inl e, st') \<Rightarrow> (False, log ERROR st'))"

subsection \<open>What the choice between media and text amounts to\<close>

text \<open>
  Auxiliary notions for the statements and proofs below. \<open>plan\<close> is the decision of
  \<open>send_content\<close> as a function of the content alone: nothing to send (\<open>None\<close>),
  an exception raised before any call of the bot, or the call to make. \<open>perform\<close> is
  a call of the bot with its answer recorded. Lemma \<open>send_content_plan\<close> proves
  that \<open>send_content\<close> is \<open>plan\<close> followed by \<open>perform\<close>.
\<close>

definition supported :: "string \<Rightarrow> bool" where
  "supported kind =
     (kind = ''photo'' \<or> kind = ''video'' \<or> kind = ''animation'' \<or> kind = ''document'')"

definition media_call :: "int \<Rightarrow> MessageContent \<Rightarrow> string \<Rightarrow> string \<Rightarrow> call" where
  "media_call u c f k =
     (let cap = (if truthy (text c) then text c else None); m = reply_markup c in
      if k = ''photo'' then send_photo u f cap m
      else if k = ''video'' then send_video u f cap m
      else if k = ''animation'' then send_animation u f cap m
      else send_document u f cap m)"

definition plan :: "int \<Rightarrow> MessageContent \<Rightarrow> (exn + call) option" where
  "plan u c =
     (if truthy (media_file_id c) \<and> truthy (media_type c) then
        (if supported (the (media_type c))
         then Some (Inr (media_call u c (the (media_file_id c)) (the (media_type c))))
         else Some (Inl ValueError))
      else if truthy (text c) then Some (Inr (send_message u (the (text c)) (reply_markup c)))
      else None)"

definition perform ::
  "'b transport \<Rightarrow> bool \<Rightarrow> call \<Rightarrow> ('b, 'x) state_scheme
    \<Rightarrow> (exn + bool) \<times> ('b, 'x) state_scheme" where
  "perform T again c st =
     ((case fst (T (bot st) c) of Inl e \<Rightarrow> Inl e | Inr _ \<Rightarrow> Inr True),
      st\<lparr>bot := snd (T (bot st) c),
         trace := trace st @ [Call (clock st) again c (fst (T (bot st) c))]\<rparr>)"

text \<open>
  The calls of the bot recorded in a trace, in order: those of the first attempts
  (\<open>requests False\<close>) and those of the retry block (\<open>requests True\<close>).
\<close>

fun requests :: "bool \<Rightarrow> event list \<Rightarrow> call list" where
  "requests a [] = []"
| "requests a (Call t a' q r # es) = (if a' = a then q # requests a es else requests a es)"
| "requests a (Sleep d # es) = requests a es"
| "requests a (Log lv # es) = requests a es"

text \<open>The contents for which \<open>send_content\<close> calls the bot.\<close>

definition sendable :: "MessageContent \<Rightarrow> bool" where
  "sendable c =
     (if truthy (media_file_id c) \<and> truthy (media_type c) then supported (the (media_type c))
      else truthy (text c))"

text \<open>The call that the content selects for the recipient \<open>u\<close>, as a list of at most one call.\<close>

definition planned :: "MessageContent \<Rightarrow> int \<Rightarrow> call list" where
  "planned c u = (case plan u c of Some (Inr q) \<Rightarrow> [q] | _ \<Rightarrow> [])"

text \<open>
  The calls of the bot in a trace, each with its time, its place (first attempt or retry
  block) and its answer. \<open>first_ok\<close> holds of a first attempt that returned.
  \<open>paced d\<close> holds of a list of calls when every call that directly follows a
  successful first attempt comes at least \<open>d\<close> after it. \<open>pace\<close> adds what the
  loop knows before the next call: if the last call was a successful first attempt and
  \<open>w\<close> holds (another recipient follows), the clock is at least \<open>d\<close> past it.
  \<open>origin\<close>: nothing has advanced the clock before the first call.
\<close>

type_synonym dispatch = "rat \<times> bool \<times> (exn + unit)"

fun dispatches :: "event list \<Rightarrow> dispatch list" where
  "dispatches [] = []"
| "dispatches (Call t a q r # es) = (t, a, r) # dispatches es"
| "dispatches (Sleep d # es) = dispatches es"
| "dispatches (Log lv # es) = dispatches es"

definition first_ok :: "dispatch \<Rightarrow> bool" where
  "first_ok x = (\<not> fst (snd x) \<and> snd (snd x) = Inr ())"

fun paced :: "rat \<Rightarrow> dispatch list \<Rightarrow> bool" where
  "paced d (x # y # ds) = ((first_ok x \<longrightarrow> fst x + d \<le> fst y) \<and> paced d (y # ds))"
| "paced d ds = True"

definition pace :: "rat \<Rightarrow> dispatch list \<Rightarrow> rat \<Rightarrow> bool \<Rightarrow> bool" where
  "pace d ds t w =
     (paced d ds \<and> (ds \<noteq> [] \<and> first_ok (last ds) \<and> w \<longrightarrow> fst (last ds) + d \<le> t))"

definition origin :: "dispatch list \<Rightarrow> rat \<Rightarrow> bool" where
  "origin ds t = (if ds = [] then t = 0 else fst (hd ds) = 0)"

text \<open>The number of recipients accounted for so far.\<close>

definition counted :: "'x counts_scheme \<Rightarrow> int" where
  "counted st = sent_count st + failed_count st + skipped_count st"

text \<open>\<open>summary.get(error_type, 0)\<close>.\<close>

definition tally :: "(string \<rightharpoonup> int) \<Rightarrow> string \<Rightarrow> int" where
  "tally summary error_type = (case summary error_type of None \<Rightarrow> 0 | Some n \<Rightarrow> n)"

text \<open>
  The state in which the loop of \<open>send_mass_message\<close> starts, and the state in which
  it ends (lemma \<open>send_mass_message_run\<close> relates the two to the function).
\<close>

definition start :: "'b \<Rightarrow> 'b state" where
  "start b = log INFO \<lparr>sent_count = 0, failed_count = 0, skipped_count = 0,
                        error_summary = Map.empty, bot = b, clock = 0, trace = []\<rparr>"

definition run :: "'b transport \<Rightarrow> 'b \<Rightarrow> int list \<Rightarrow> MessageContent \<Rightarrow> int \<Rightarrow> 'b state" where
  "run T b recipients content rps =
     loop T (length recipients) (1 / of_int rps) content 1 recipients (start b)"

subsection \<open>Concrete bots and contents\<close>

text \<open>
  Bots without a state of their own, and two that count their calls: \<open>retry_then\<close>
  asks to wait at its first call only, \<open>retry_each\<close> at every first attempt.
\<close>

definition always_ok :: "unit transport" where
  "always_ok b q = (Inr (), b)"

definition always_raises :: "exn \<Rightarrow> unit transport" where
  "always_raises e b q = (Inl e, b)"

definition always_forbidden :: "unit transport" where
  "always_forbidden b q = (Inl TelegramForbiddenError, b)"

definition forbidden_for :: "int \<Rightarrow> unit transport" where
  "forbidden_for x b q = (if chat_id q = x then Inl TelegramForbiddenError else Inr (), b)"

definition retry_then :: "exn + unit \<Rightarrow> nat transport" where
  "retry_then r b q = (if b = 0 then Inl (TelegramRetryAfter 2) else r, Suc b)"

definition retry_each :: "exn + unit \<Rightarrow> nat transport" where
  "retry_each r b q = (if even b then Inl (TelegramRetryAfter 2) else r, Suc b)"

definition hi :: MessageContent where
  "hi = \<lparr>text = Some ''hi'', media_file_id = None, media_type = None, reply_markup = None\<rparr>"

definition nothing :: MessageContent where
  "nothing = \<lparr>text = None, media_file_id = None, media_type = None, reply_markup = None\<rparr>"

definition sticker :: MessageContent where
  "sticker = \<lparr>text = Some ''hi'', media_file_id = Some ''f'', media_type = Some ''sticker'',
               reply_markup = None\<rparr>"

definition file_only :: MessageContent where
  "file_only = \<lparr>text = None, media_file_id = Some ''f'', media_type = None,
                 reply_markup = None\<rparr>"

definition file_hi :: MessageContent where
  "file_hi = \<lparr>text = Some ''hi'', media_file_id = Some ''f'', media_type = None,
               reply_markup = None\<rparr>"

definition photo :: MessageContent where
  "photo = \<lparr>text = None, media_file_id = Some ''f'', media_type = Some ''photo'',
             reply_markup = None\<rparr>"

text \<open>A state in which one recipient has already failed under the key \<open>k\<close>.\<close>

definition seen :: "string \<Rightarrow> 'b \<Rightarrow> 'b state" where
  "seen k b = \<lparr>sent_count = 0, failed_count = 1, skipped_count = 0,
               error_summary = [k \<mapsto> 1], bot = b, clock = 0, trace = []\<rparr>"

definition st0 :: "unit state" where
  "st0 = \<lparr>sent_count = 0, failed_count = 0, skipped_count = 0, error_summary = Map.empty,
           bot = (), clock = 0, trace = []\<rparr>"

section \<open>Properties\<close>

subsection \<open>The choice between media and text\<close>

lemma invoke_eq:
  "invoke T again c st =
     (fst (T (bot st) c),
      st\<lparr>bot := snd (T (bot st) c),
         trace := trace st @ [Call (clock st) again c (fst (T (bot st) c))]\<rparr>)"
  by (simp add: invoke_def split: prod.splits)

lemma truthy_Some: "truthy x \<Longrightarrow> \<exists>s. x = Some s \<and> s \<noteq> []"
  by (cases x) auto

lemma send_media_message_eq:
  assumes "truthy (media_file_id c)" "truthy (media_type c)"
  shows "send_media_message T again u c st =
     (if supported (the (media_type c))
      then invoke T again (media_call u c (the (media_file_id c)) (the (media_type c))) st
      else (Inl ValueError, st))"
proof -
  obtain f k where fk: "media_file_id c = Some f" "f \<noteq> []" "media_type c = Some k" "k \<noteq> []"
    using assms truthy_Some by blast
  show ?thesis
    by (simp add: send_media_message_def fk supported_def media_call_def Let_def)
qed

lemma send_content_plan:
  "send_content T again u c st =
     (case plan u c of
        None \<Rightarrow> (Inr False, st)
      | Some (Inl e) \<Rightarrow> (Inl e, st)
      | Some (Inr q) \<Rightarrow> perform T again q st)"
proof (cases "truthy (media_file_id c) \<and> truthy (media_type c)")
  case True
  then show ?thesis
    by (cases "fst (T (bot st) (media_call u c (the (media_file_id c)) (the (media_type c))))")
       (simp_all add: send_content_def plan_def send_media_message_eq invoke_eq perform_def)
next
  case False
  then have nb: "(truthy (media_file_id c) \<and> truthy (media_type c)) = False" by simp
  show ?thesis
  proof (cases "text c")
    case None
    then show ?thesis by (simp add: send_content_def plan_def nb)
  next
    case (Some t)
    then show ?thesis
      by (cases "fst (T (bot st) (send_message u t (reply_markup c)))")
         (simp_all add: send_content_def plan_def invoke_eq perform_def nb)
  qed
qed

lemma chat_id_media_call: "chat_id (media_call u c f k) = u"
  by (simp add: media_call_def Let_def)

lemma plan_chat_id: "plan u c = Some (Inr q) \<Longrightarrow> chat_id q = u"
  by (auto simp: plan_def chat_id_media_call split: if_splits)

lemma plan_raise: "plan u c = Some (Inl e) \<Longrightarrow> e = ValueError"
  by (auto simp: plan_def split: if_splits)

lemma log_fields:
  "sent_count (log lv st) = sent_count st" "failed_count (log lv st) = failed_count st"
  "skipped_count (log lv st) = skipped_count st" "error_summary (log lv st) = error_summary st"
  "bot (log lv st) = bot st" "clock (log lv st) = clock st"
  "trace (log lv st) = trace st @ [Log lv]"
  by (simp_all add: log_def)

lemma sleep_fields:
  "sent_count (sleep d st) = sent_count st" "failed_count (sleep d st) = failed_count st"
  "skipped_count (sleep d st) = skipped_count st" "error_summary (sleep d st) = error_summary st"
  "bot (sleep d st) = bot st" "clock (sleep d st) = clock st + max 0 d"
  "trace (sleep d st) = trace st @ [Sleep d]"
  by (simp_all add: sleep_def)

lemma perform_fields:
  "fst (perform T a q st) = (case fst (T (bot st) q) of Inl e \<Rightarrow> Inl e | Inr _ \<Rightarrow> Inr True)"
  "sent_count (snd (perform T a q st)) = sent_count st"
  "failed_count (snd (perform T a q st)) = failed_count st"
  "skipped_count (snd (perform T a q st)) = skipped_count st"
  "error_summary (snd (perform T a q st)) = error_summary st"
  "bot (snd (perform T a q st)) = snd (T (bot st) q)"
  "clock (snd (perform T a q st)) = clock st"
  "trace (snd (perform T a q st)) = trace st @ [Call (clock st) a q (fst (T (bot st) q))]"
  by (simp_all add: perform_def)

lemma failed_fields:
  "sent_count (failed lv k st) = sent_count st" "failed_count (failed lv k st) = failed_count st + 1"
  "skipped_count (failed lv k st) = skipped_count st"
  "error_summary (failed lv k st) = update_error_summary (error_summary st) k"
  "bot (failed lv k st) = bot st" "clock (failed lv k st) = clock st"
  "trace (failed lv k st) = trace st @ [Log lv]"
  by (simp_all add: failed_def log_def)

lemma progress_fields:
  "sent_count (progress i st) = sent_count st" "failed_count (progress i st) = failed_count st"
  "skipped_count (progress i st) = skipped_count st" "error_summary (progress i st) = error_summary st"
  "bot (progress i st) = bot st" "clock (progress i st) = clock st"
  "trace (progress i st) = trace st @ (if i mod 100 = 0 then [Log INFO] else [])"
  by (simp_all add: progress_def log_def)

lemma process_recipient_plan:
  "process_recipient T n d c idx u st =
     (case plan u c of
        None \<Rightarrow> (log WARNING st)\<lparr>skipped_count := skipped_count st + 1\<rparr>
      | Some (Inl e) \<Rightarrow> progress idx (handler T c u e st)
      | Some (Inr q) \<Rightarrow>
          (case fst (T (bot st) q) of
             Inr _ \<Rightarrow>
               progress idx
                 (let st'' = (snd (perform T False q st))\<lparr>sent_count := sent_count st + 1\<rparr>
                  in if idx < n then sleep d st'' else st'')
           | Inl e \<Rightarrow> progress idx (handler T c u e (snd (perform T False q st)))))"
  by (simp add: process_recipient_def send_content_plan perform_def log_def
           split: option.splits sum.splits)

lemma handler_retry_plan:
  "handler T c u (TelegramRetryAfter ra) st =
     (case plan u c of
        None \<Rightarrow> (sleep ra (log WARNING st))\<lparr>sent_count := sent_count st + 1\<rparr>
      | Some (Inl e) \<Rightarrow> failed ERROR ''retry_failed'' (sleep ra (log WARNING st))
      | Some (Inr q) \<Rightarrow>
          (case fst (T (bot st) q) of
             Inr _ \<Rightarrow> (snd (perform T True q (sleep ra (log WARNING st))))\<lparr>sent_count := sent_count st + 1\<rparr>
           | Inl e \<Rightarrow> failed ERROR ''retry_failed'' (snd (perform T True q (sleep ra (log WARNING st))))))"
  by (simp add: handler_def send_content_plan perform_def log_def sleep_def
           split: option.splits sum.splits)

lemma handler_other:
  "handler T c u TelegramForbiddenError st = failed DEBUG ''blocked'' st"
  "handler T c u (TelegramAPIError code) st =
     failed WARNING (case code of Some k \<Rightarrow> ''api_error_'' @ str_int k | None \<Rightarrow> ''api_error'') st"
  "handler T c u ValueError st = failed ERROR ''unexpected'' st"
  "handler T c u ZeroDivisionError st = failed ERROR ''unexpected'' st"
  "handler T c u OtherException st = failed ERROR ''unexpected'' st"
  by (simp_all add: handler_def)

lemma handler_counted: "counted (handler T c u e st) = counted st + 1"
  by (cases e)
     (simp_all add: handler_other handler_retry_plan counted_def failed_fields perform_fields
        sleep_fields log_fields split: option.splits sum.splits)

lemma process_recipient_counted:
  "counted (process_recipient T n d c idx u st) = counted st + 1"
  by (simp add: process_recipient_plan counted_def[of "progress _ _"] progress_fields
        handler_counted[unfolded counted_def] Let_def perform_fields sleep_fields log_fields counted_def
        split: option.splits sum.splits)

subsection \<open>Counting\<close>

lemma loop_counted: "counted (loop T n d c idx us st) = counted st + int (length us)"
  by (induction us arbitrary: idx st) (simp_all add: process_recipient_counted)

lemma handler_sent_mono: "k \<le> sent_count st \<Longrightarrow> k \<le> sent_count (handler T c u e st)"
  by (cases e) (simp_all add: handler_other handler_retry_plan failed_fields perform_fields
        sleep_fields log_fields split: option.splits sum.splits)

lemma handler_failed_mono: "k \<le> failed_count st \<Longrightarrow> k \<le> failed_count (handler T c u e st)"
  by (cases e) (simp_all add: handler_other handler_retry_plan failed_fields perform_fields
        sleep_fields log_fields split: option.splits sum.splits)

lemma handler_skipped_mono: "k \<le> skipped_count st \<Longrightarrow> k \<le> skipped_count (handler T c u e st)"
  by (cases e) (simp_all add: handler_other handler_retry_plan failed_fields perform_fields
        sleep_fields log_fields split: option.splits sum.splits)

lemma process_recipient_sent_mono:
  "k \<le> sent_count st \<Longrightarrow> k \<le> sent_count (process_recipient T n d c idx u st)"
  by (simp add: process_recipient_plan progress_fields handler_sent_mono Let_def perform_fields
        sleep_fields log_fields split: option.splits sum.splits)

lemma process_recipient_failed_mono:
  "k \<le> failed_count st \<Longrightarrow> k \<le> failed_count (process_recipient T n d c idx u st)"
  by (simp add: process_recipient_plan progress_fields handler_failed_mono Let_def perform_fields
        sleep_fields log_fields split: option.splits sum.splits)

lemma process_recipient_skipped_mono:
  "k \<le> skipped_count st \<Longrightarrow> k \<le> skipped_count (process_recipient T n d c idx u st)"
  by (simp add: process_recipient_plan progress_fields handler_skipped_mono Let_def perform_fields
        sleep_fields log_fields split: option.splits sum.splits)

lemma loop_sent_mono: "k \<le> sent_count st \<Longrightarrow> k \<le> sent_count (loop T n d c idx us st)"
  by (induction us arbitrary: idx st) (simp_all add: process_recipient_sent_mono)

lemma loop_failed_mono: "k \<le> failed_count st \<Longrightarrow> k \<le> failed_count (loop T n d c idx us st)"
  by (induction us arbitrary: idx st) (simp_all add: process_recipient_failed_mono)

lemma loop_skipped_mono:
  "k \<le> skipped_count st \<Longrightarrow> k \<le> skipped_count (loop T n d c idx us st)"
  by (induction us arbitrary: idx st) (simp_all add: process_recipient_skipped_mono)

lemma start_fields:
  "sent_count (start b) = 0" "failed_count (start b) = 0" "skipped_count (start b) = 0"
  "error_summary (start b) = Map.empty" "bot (start b) = b" "clock (start b) = 0"
  "trace (start b) = [Log INFO]"
  by (simp_all add: start_def log_def)

lemma send_mass_message_run:
  "rps \<noteq> 0 \<Longrightarrow>
   send_mass_message T b recipients content rps =
     Inr (\<lparr>sent_count = sent_count (run T b recipients content rps),
           failed_count = failed_count (run T b recipients content rps),
           skipped_count = skipped_count (run T b recipients content rps),
           error_summary = error_summary (run T b recipients content rps),
           total_recipients = int (length recipients),
           duration_seconds = clock (run T b recipients content rps)\<rparr>,
          log INFO (run T b recipients content rps))"
  by (simp add: send_mass_message_def Let_def run_def start_def log_fields)

text \<open>The rate zero: the division of line 61 raises, before anything is sent or logged.\<close>

lemma send_mass_message_zero_rate:
  "send_mass_message T b recipients content 0 = Inl ZeroDivisionError"
  by (simp add: send_mass_message_def)

subsection \<open>The calls of the first attempts\<close>

lemma requests_append: "requests a (xs @ ys) = requests a xs @ requests a ys"
  by (induction a xs rule: requests.induct) simp_all

lemma sendable_plan: "sendable c \<Longrightarrow> \<exists>q. plan u c = Some (Inr q)"
  by (simp add: sendable_def plan_def split: if_splits)

lemma not_sendable_plan: "\<not> sendable c \<Longrightarrow> plan u c = None \<or> plan u c = Some (Inl ValueError)"
  by (simp add: sendable_def plan_def split: if_splits)

lemma handler_requests_first:
  "requests False (trace (handler T c u e st)) = requests False (trace st)"
  by (cases e) (simp_all add: handler_other handler_retry_plan failed_fields perform_fields
        sleep_fields log_fields requests_append split: option.splits sum.splits)

lemma process_recipient_requests_first:
  "requests False (trace (process_recipient T n d c idx u st)) =
     requests False (trace st) @ (case plan u c of Some (Inr q) \<Rightarrow> [q] | _ \<Rightarrow> [])"
  by (simp add: process_recipient_plan progress_fields handler_requests_first Let_def
        perform_fields sleep_fields log_fields requests_append split: option.splits sum.splits)

lemma loop_requests_first:
  "map chat_id (requests False (trace (loop T n d c idx us st))) =
     map chat_id (requests False (trace st)) @ (if sendable c then us else [])"
proof (induction us arbitrary: idx st)
  case Nil
  show ?case by simp
next
  case (Cons u us)
  show ?case
  proof (cases "sendable c")
    case True
    then obtain q where q: "plan u c = Some (Inr q)" using sendable_plan by blast
    show ?thesis
      by (simp add: Cons.IH process_recipient_requests_first q plan_chat_id[OF q] True)
  next
    case False
    then show ?thesis
      using not_sendable_plan[OF False, of u]
      by (auto simp: Cons.IH process_recipient_requests_first)
  qed
qed

subsection \<open>Every recipient is accounted for\<close>

text \<open>
  Claim C1. With a rate other than zero, for every list of recipients, every content and
  every bot (whatever it answers to each call: a normal return or any exception), the
  broadcast returns a result; no exception of a recipient reaches the caller. The result
  counts every recipient exactly once: \<open>total_recipients\<close> is the length of the list
  and the sum of the three counters, none of which is negative. Every recipient is
  processed: when the content selects a call of the bot, the first attempts recorded in
  the trace address the recipients of the list, each once and in the order of the list.
  (The rate is the one input that can make the function raise: \<open>1.0 / rps\<close> with
  \<open>rps = 0\<close>, before the loop.)
\<close>

theorem broadcast_accounts_for_every_recipient:
  assumes "rps \<noteq> 0"
  shows "\<exists>r st. send_mass_message T b recipients content rps = Inr (r, st)
           \<and> total_recipients r = int (length recipients)
           \<and> total_recipients r = sent_count r + failed_count r + skipped_count r
           \<and> 0 \<le> sent_count r \<and> 0 \<le> failed_count r \<and> 0 \<le> skipped_count r
           \<and> map chat_id (requests False (trace st)) = (if sendable content then recipients else [])"
proof -
  let ?s = "run T b recipients content rps"
  have "counted ?s = counted (start b) + int (length recipients)"
    unfolding run_def by (rule loop_counted)
  then have "sent_count ?s + failed_count ?s + skipped_count ?s = int (length recipients)"
    by (simp add: counted_def start_fields)
  moreover have "0 \<le> sent_count ?s" "0 \<le> failed_count ?s" "0 \<le> skipped_count ?s"
    unfolding run_def
    by (simp_all add: loop_sent_mono loop_failed_mono loop_skipped_mono start_fields)
  moreover have "map chat_id (requests False (trace ?s)) = (if sendable content then recipients else [])"
    unfolding run_def by (simp add: loop_requests_first start_fields)
  ultimately show ?thesis
    by (simp add: send_mass_message_run[OF assms] log_fields requests_append)
qed

text \<open>The theorem at three recipients, the second of whom has blocked the bot.\<close>

theorem broadcast_accounts_for_every_recipient_witness:
  "(20::int) \<noteq> 0 \<and>
   (\<exists>r st. send_mass_message (forbidden_for 2) () [1, 2, 3] hi 20 = Inr (r, st)
      \<and> total_recipients r = int (length [1, 2, 3 :: int])
      \<and> total_recipients r = sent_count r + failed_count r + skipped_count r
      \<and> 0 \<le> sent_count r \<and> 0 \<le> failed_count r \<and> 0 \<le> skipped_count r
      \<and> map chat_id (requests False (trace st)) = [1, 2, 3])"
  using broadcast_accounts_for_every_recipient [of 20 "forbidden_for 2" "()" "[1, 2, 3]" hi]
  by (simp add: sendable_def hi_def)

subsection \<open>Empty content\<close>

lemma plan_nothing:
  "\<not> truthy (text c) \<Longrightarrow> \<not> (truthy (media_file_id c) \<and> truthy (media_type c)) \<Longrightarrow> plan u c = None"
  by (simp add: plan_def)

lemma loop_nothing:
  assumes "\<And>u. plan u c = None"
  shows "loop T n d c idx us st =
     st\<lparr>skipped_count := skipped_count st + int (length us),
        trace := trace st @ replicate (length us) (Log WARNING)\<rparr>"
proof (induction us arbitrary: idx st)
  case Nil
  show ?case by simp
next
  case (Cons u us)
  show ?case
    by (simp add: Cons.IH process_recipient_plan assms log_def replicate_append_same)
qed

text \<open>
  Claim C3. When the content has neither text nor media file, every recipient is counted
  as skipped and none as sent or failed. The bot is never called and nothing sleeps: the
  bot's state is the initial one, and the trace consists of the opening log record, one
  warning for each recipient and the closing log record.
\<close>

theorem empty_content_skips_everyone:
  assumes "rps \<noteq> 0" and "\<not> truthy (text content)" and "\<not> truthy (media_file_id content)"
  shows "\<exists>r st. send_mass_message T b recipients content rps = Inr (r, st)
           \<and> skipped_count r = int (length recipients) \<and> sent_count r = 0 \<and> failed_count r = 0
           \<and> total_recipients r = int (length recipients) \<and> error_summary r = Map.empty
           \<and> bot st = b
           \<and> trace st = Log INFO # replicate (length recipients) (Log WARNING) @ [Log INFO]"
proof -
  have p: "\<And>u. plan u content = None"
    using assms(2,3) by (simp add: plan_nothing)
  show ?thesis
    by (simp add: send_mass_message_run[OF assms(1)] run_def loop_nothing[OF p] start_fields log_fields)
qed

text \<open>The scenario of the specification: two recipients, empty content.\<close>

theorem empty_content_skips_everyone_witness:
  "(20::int) \<noteq> 0 \<and> \<not> truthy (text nothing) \<and> \<not> truthy (media_file_id nothing) \<and>
   (\<exists>r st. send_mass_message always_ok () [1, 2] nothing 20 = Inr (r, st)
      \<and> skipped_count r = 2 \<and> sent_count r = 0 \<and> failed_count r = 0
      \<and> total_recipients r = 2 \<and> error_summary r = Map.empty
      \<and> bot st = ()
      \<and> trace st = [Log INFO, Log WARNING, Log WARNING, Log INFO])"
  using empty_content_skips_everyone [of 20 nothing always_ok "()" "[1, 2]"]
  by (simp add: nothing_def)

subsection \<open>A media file without a kind\<close>

lemma process_recipient_requests_planned:
  "requests False (trace (process_recipient T n d c idx u st)) =
     requests False (trace st) @ planned c u"
  by (simp add: process_recipient_requests_first planned_def)

lemma loop_requests_planned:
  "requests False (trace (loop T n d c idx us st)) =
     requests False (trace st) @ concat (map (planned c) us)"
  by (induction us arbitrary: idx st) (simp_all add: process_recipient_requests_planned)

lemma handler_requests_retry:
  "set (requests True (trace (handler T c u e st)))
     \<subseteq> set (requests True (trace st)) \<union> set (planned c u)"
  by (cases e) (auto simp: handler_other handler_retry_plan failed_fields perform_fields
        sleep_fields log_fields requests_append planned_def split: option.splits sum.splits)

lemma process_recipient_requests_retry:
  "set (requests True (trace (process_recipient T n d c idx u st)))
     \<subseteq> set (requests True (trace st)) \<union> set (planned c u)"
proof (cases "plan u c")
  case None
  then show ?thesis
    by (simp add: process_recipient_plan log_fields requests_append)
next
  case (Some x)
  show ?thesis
  proof (cases x)
    case (Inl e)
    with Some show ?thesis
      using handler_requests_retry[of T c u e st]
      by (simp add: process_recipient_plan progress_fields requests_append)
  next
    case (Inr q)
    show ?thesis
    proof (cases "fst (T (bot st) q)")
      case (Inl e)
      with Some Inr show ?thesis
        using handler_requests_retry[of T c u e "snd (perform T False q st)"]
        by (simp add: process_recipient_plan progress_fields requests_append perform_fields)
    next
      case (Inr v)
      with Some \<open>x = Inr q\<close> show ?thesis
        by (simp add: process_recipient_plan progress_fields requests_append perform_fields
              Let_def sleep_fields)
    qed
  qed
qed

lemma loop_requests_retry:
  "set (requests True (trace (loop T n d c idx us st)))
     \<subseteq> set (requests True (trace st)) \<union> set (concat (map (planned c) us))"
proof (induction us arbitrary: idx st)
  case Nil
  show ?case by simp
next
  case (Cons u us)
  show ?case
    using Cons.IH[of "Suc idx" "process_recipient T n d c idx u st"]
      process_recipient_requests_retry[of T n d c idx u st]
    by auto
qed

lemma requests_replicate_log: "requests a (replicate k (Log lv)) = []"
  by (induction k) simp_all

lemma planned_text:
  assumes "\<not> truthy (media_type c)" "truthy (text c)"
  shows "planned c u = [send_message u (the (text c)) (reply_markup c)]"
  using assms by (simp add: planned_def plan_def)

text \<open>
  Claim C10. When the media kind is absent (\<open>None\<close> or empty), whether or not a
  media file is given, the broadcast returns a result and never calls a media method of
  the bot. If the text is present, the first attempts are exactly the plain text messages
  \<open>send_message\<close> to the recipients in order, and every retried call is one of them;
  the media file is ignored. If the text is absent too, every recipient is counted as
  skipped, the bot is not called at all and its state is unchanged. In neither case is
  an error raised for the missing kind.
\<close>

theorem media_without_kind_is_text_or_skip:
  assumes "rps \<noteq> 0" and "\<not> truthy (media_type content)"
  shows "\<exists>r st. send_mass_message T b recipients content rps = Inr (r, st)
           \<and> (truthy (text content) \<longrightarrow>
                requests False (trace st) =
                  map (\<lambda>u. send_message u (the (text content)) (reply_markup content)) recipients
                \<and> set (requests True (trace st)) \<subseteq> set (requests False (trace st)))
           \<and> (\<not> truthy (text content) \<longrightarrow>
                skipped_count r = int (length recipients) \<and> sent_count r = 0 \<and> failed_count r = 0
                \<and> bot st = b \<and> requests False (trace st) = [] \<and> requests True (trace st) = [])"
proof (cases "truthy (text content)")
  case True
  let ?s = "run T b recipients content rps"
  have pl: "planned content = (\<lambda>u. [send_message u (the (text content)) (reply_markup content)])"
    using planned_text[OF assms(2) True] by auto
  have f: "requests False (trace ?s) =
             map (\<lambda>u. send_message u (the (text content)) (reply_markup content)) recipients"
    unfolding run_def by (simp add: loop_requests_planned start_fields pl)
  have "set (requests True (trace ?s)) \<subseteq> set (concat (map (planned content) recipients))"
    unfolding run_def
    using loop_requests_retry[of T "length recipients" "1 / of_int rps" content 1 recipients "start b"]
    by (simp add: start_fields)
  then have "set (requests True (trace ?s)) \<subseteq> set (requests False (trace ?s))"
    by (simp add: f pl)
  with f True show ?thesis
    by (simp add: send_mass_message_run[OF assms(1)] log_fields requests_append)
next
  case False
  have p: "\<And>u. plan u content = None"
    using assms(2) False by (simp add: plan_nothing)
  show ?thesis
    using False
    by (simp add: send_mass_message_run[OF assms(1)] run_def loop_nothing[OF p] start_fields
          log_fields requests_append requests_replicate_log)
qed

text \<open>A media file without kind, once without text and once with the text \<open>hi\<close>.\<close>

theorem media_without_kind_is_text_or_skip_witness:
  "((20::int) \<noteq> 0 \<and> truthy (media_file_id file_only) \<and> \<not> truthy (media_type file_only) \<and>
    (\<exists>r st. send_mass_message always_ok () [1, 2] file_only 20 = Inr (r, st)
       \<and> \<not> truthy (text file_only)
       \<and> skipped_count r = 2 \<and> sent_count r = 0 \<and> failed_count r = 0
       \<and> bot st = () \<and> requests False (trace st) = [] \<and> requests True (trace st) = [])) \<and>
   ((20::int) \<noteq> 0 \<and> truthy (media_file_id file_hi) \<and> \<not> truthy (media_type file_hi) \<and>
    (\<exists>r st. send_mass_message always_ok () [1, 2] file_hi 20 = Inr (r, st)
       \<and> truthy (text file_hi)
       \<and> requests False (trace st) = [send_message 1 ''hi'' None, send_message 2 ''hi'' None]
       \<and> set (requests True (trace st)) \<subseteq> set (requests False (trace st))))"
  using media_without_kind_is_text_or_skip [of 20 file_only always_ok "()" "[1, 2]"]
    media_without_kind_is_text_or_skip [of 20 file_hi always_ok "()" "[1, 2]"]
  by (simp add: file_only_def file_hi_def)

subsection \<open>The error summary\<close>

lemma tally_update:
  "tally (update_error_summary m k) k' = (if k' = k then tally m k + 1 else tally m k')"
  by (simp add: tally_def update_error_summary_def)

lemma tally_empty: "tally Map.empty k = 0"
  by (simp add: tally_def)

lemma update_other: "k' \<noteq> k \<Longrightarrow> update_error_summary m k k' = m k'"
  by (simp add: update_error_summary_def)

lemma update_same: "update_error_summary m k k = Some (tally m k + 1)"
  by (simp add: update_error_summary_def tally_def)

subsection \<open>An unsupported media kind\<close>

lemma plan_unsupported:
  assumes "truthy (media_file_id c)" "truthy (media_type c)" "\<not> supported (the (media_type c))"
  shows "plan u c = Some (Inl ValueError)"
  using assms by (simp add: plan_def)

lemma loop_unsupported:
  assumes "\<And>u. plan u c = Some (Inl ValueError)"
  shows "sent_count (loop T n d c idx us st) = sent_count st
       \<and> failed_count (loop T n d c idx us st) = failed_count st + int (length us)
       \<and> skipped_count (loop T n d c idx us st) = skipped_count st
       \<and> tally (error_summary (loop T n d c idx us st)) ''unexpected''
            = tally (error_summary st) ''unexpected'' + int (length us)
       \<and> (\<forall>k. k \<noteq> ''unexpected'' \<longrightarrow> error_summary (loop T n d c idx us st) k = error_summary st k)
       \<and> bot (loop T n d c idx us st) = bot st
       \<and> requests a (trace (loop T n d c idx us st)) = requests a (trace st)"
  by (induction us arbitrary: idx st)
     (simp_all add: process_recipient_plan assms progress_fields handler_other failed_fields
        tally_update update_other requests_append)

lemma plan_sticker: "plan u sticker = Some (Inl ValueError)"
  by (simp add: plan_def sticker_def supported_def)

text \<open>
  Claim C6, refuted as stated. The content \<open>sticker\<close> has a media file and the kind
  \<open>sticker\<close>, which is none of the four supported kinds. The broadcast to two
  recipients does not fail: it returns a result, in which both recipients are counted as
  failed under the key \<open>unexpected\<close>. The \<open>ValueError\<close> of line 154 is raised
  inside the \<open>try\<close> of the loop and caught by the last handler (lines 111-115).
\<close>

theorem unsupported_kind_counterexample:
  "\<not> isl (send_mass_message always_ok () [1, 2] sticker 20)
   \<and> failed_count (fst (projr (send_mass_message always_ok () [1, 2] sticker 20))) = 2
   \<and> tally (error_summary (fst (projr (send_mass_message always_ok () [1, 2] sticker 20))))
        ''unexpected'' = 2"
  by (simp add: send_mass_message_run run_def start_fields process_recipient_plan plan_sticker
        progress_fields handler_other failed_fields tally_update tally_empty)

text \<open>
  Claim C6, amended. When the media file and the media kind are both present and the
  kind is none of the four supported ones, the broadcast (with a rate other than zero)
  returns a result in which every recipient is counted as failed, none as sent or
  skipped, and the only key of the error summary is \<open>unexpected\<close>, with the number
  of recipients. The bot is never called: its state is unchanged and the trace has no
  call.
\<close>

theorem unsupported_kind_fails_every_recipient:
  assumes "rps \<noteq> 0"
    and "truthy (media_file_id content)" and "truthy (media_type content)"
    and "\<not> supported (the (media_type content))"
  shows "\<exists>r st. send_mass_message T b recipients content rps = Inr (r, st)
           \<and> failed_count r = int (length recipients) \<and> sent_count r = 0 \<and> skipped_count r = 0
           \<and> tally (error_summary r) ''unexpected'' = int (length recipients)
           \<and> (\<forall>k. k \<noteq> ''unexpected'' \<longrightarrow> error_summary r k = None)
           \<and> bot st = b \<and> requests False (trace st) = [] \<and> requests True (trace st) = []"
proof -
  have p: "\<And>u. plan u content = Some (Inl ValueError)"
    using assms(2-4) by (simp add: plan_unsupported)
  show ?thesis
    by (simp add: send_mass_message_run[OF assms(1)] run_def loop_unsupported[OF p] start_fields
          log_fields requests_append tally_empty)
qed

text \<open>The theorem at the content \<open>sticker\<close> and two recipients.\<close>

theorem unsupported_kind_fails_every_recipient_witness:
  "(20::int) \<noteq> 0 \<and> truthy (media_file_id sticker) \<and> truthy (media_type sticker)
   \<and> \<not> supported (the (media_type sticker))
   \<and> (\<exists>r st. send_mass_message always_ok () [1, 2] sticker 20 = Inr (r, st)
         \<and> failed_count r = 2 \<and> sent_count r = 0 \<and> skipped_count r = 0
         \<and> tally (error_summary r) ''unexpected'' = 2
         \<and> (\<forall>k. k \<noteq> ''unexpected'' \<longrightarrow> error_summary r k = None)
         \<and> bot st = () \<and> requests False (trace st) = [] \<and> requests True (trace st) = [])"
  using unsupported_kind_fails_every_recipient [of 20 sticker always_ok "()" "[1, 2]"]
  by (simp add: sticker_def supported_def)

subsection \<open>A bot that always succeeds\<close>

lemma process_recipient_all_ok:
  assumes "sendable c" and "\<And>b q. fst (T b q) = Inr ()"
  shows "sent_count (process_recipient T n d c idx u st) = sent_count st + 1"
    and "failed_count (process_recipient T n d c idx u st) = failed_count st"
    and "skipped_count (process_recipient T n d c idx u st) = skipped_count st"
    and "error_summary (process_recipient T n d c idx u st) = error_summary st"
proof -
  obtain q where q: "plan u c = Some (Inr q)" using sendable_plan[OF assms(1)] by blast
  show "sent_count (process_recipient T n d c idx u st) = sent_count st + 1"
    and "failed_count (process_recipient T n d c idx u st) = failed_count st"
    and "skipped_count (process_recipient T n d c idx u st) = skipped_count st"
    and "error_summary (process_recipient T n d c idx u st) = error_summary st"
    by (simp_all add: process_recipient_plan q assms(2) progress_fields Let_def perform_fields
          sleep_fields)
qed

lemma loop_all_ok:
  assumes "sendable c" and "\<And>b q. fst (T b q) = Inr ()"
  shows "sent_count (loop T n d c idx us st) = sent_count st + int (length us)
       \<and> failed_count (loop T n d c idx us st) = failed_count st
       \<and> skipped_count (loop T n d c idx us st) = skipped_count st
       \<and> error_summary (loop T n d c idx us st) = error_summary st"
  by (induction us arbitrary: idx st) (simp_all add: process_recipient_all_ok[OF assms])

text \<open>
  Claim C2, refuted as stated. The content \<open>sticker\<close> has the text \<open>hi\<close>, and
  with the bot \<open>always_ok\<close> every call of the bot succeeds; yet of three recipients
  none is counted as sent and all three as failed, because the unsupported media kind
  raises before the bot is called.
\<close>

theorem all_calls_succeed_counterexample:
  "truthy (text sticker)
   \<and> sent_count (fst (projr (send_mass_message always_ok () [1, 2, 3] sticker 20))) = 0
   \<and> failed_count (fst (projr (send_mass_message always_ok () [1, 2, 3] sticker 20))) = 3"
  by (simp add: send_mass_message_run run_def start_fields process_recipient_plan plan_sticker
        progress_fields handler_other failed_fields)
     (simp add: sticker_def)

text \<open>
  Claim C2, amended. For a content whose text is present and whose media kind, when a
  media file and a kind are both present, is one of the four supported kinds: if every
  call of the bot succeeds, the broadcast (with a rate other than zero) returns a result
  with every recipient counted as sent, none as failed or skipped, and
  \<open>total_recipients\<close> the length of the list.
\<close>

theorem all_calls_succeed_all_sent:
  assumes "rps \<noteq> 0"
    and "truthy (text content)"
    and "truthy (media_file_id content) \<and> truthy (media_type content)
           \<longrightarrow> supported (the (media_type content))"
    and "\<forall>b q. fst (T b q) = Inr ()"
  shows "\<exists>r st. send_mass_message T b recipients content rps = Inr (r, st)
           \<and> sent_count r = int (length recipients) \<and> failed_count r = 0
           \<and> skipped_count r = 0 \<and> total_recipients r = int (length recipients)"
proof -
  have s: "sendable content" using assms(2,3) by (simp add: sendable_def)
  have ok: "\<And>b q. fst (T b q) = Inr ()" using assms(4) by simp
  show ?thesis
    by (simp add: send_mass_message_run[OF assms(1)] run_def loop_all_ok[OF s ok] start_fields)
qed

text \<open>
  The scenario of the specification: recipients 1, 2, 3 and the content with the text
  \<open>hi\<close> alone give total 3, sent 3, failed 0, skipped 0.
\<close>

theorem all_calls_succeed_all_sent_witness:
  "(20::int) \<noteq> 0 \<and> truthy (text hi)
   \<and> \<not> truthy (media_file_id hi)
   \<and> (\<forall>b q. fst (always_ok b q) = Inr ())
   \<and> (\<exists>r st. send_mass_message always_ok () [1, 2, 3] hi 20 = Inr (r, st)
         \<and> sent_count r = 3 \<and> failed_count r = 0 \<and> skipped_count r = 0
         \<and> total_recipients r = 3)"
  using all_calls_succeed_all_sent [of 20 hi always_ok "()" "[1, 2, 3]"]
  by (simp add: hi_def always_ok_def)

subsection \<open>One recipient: evaluation and the exception of the first attempt\<close>

lemma plan_hi: "plan u hi = Some (Inr (send_message u ''hi'' None))"
  by (simp add: plan_def hi_def)

lemmas step_eval = process_recipient_plan handler_retry_plan handler_other progress_fields
  perform_fields sleep_fields log_fields failed_fields start_fields send_content_plan

lemma seen_fields:
  "sent_count (seen k b) = 0" "failed_count (seen k b) = 1" "skipped_count (seen k b) = 0"
  "error_summary (seen k b) = [k \<mapsto> 1]" "bot (seen k b) = b" "clock (seen k b) = 0"
  "trace (seen k b) = []"
  by (simp_all add: seen_def)

lemma tally_one: "tally [k \<mapsto> n] k = n"
  by (simp add: tally_def)

lemma str_int_400: "str_int 400 = ''400''"
  by code_simp

lemma plan_photo: "plan u photo = Some (Inr (send_photo u ''f'' None None))"
  by (simp add: plan_def photo_def supported_def media_call_def)

lemma plan_empty: "plan u nothing = None"
  by (simp add: plan_def nothing_def)

lemma first_attempt_raised:
  assumes "fst (send_content T False u c st) = Inl e" and "e \<noteq> ValueError"
  shows "\<exists>q. plan u c = Some (Inr q) \<and> fst (T (bot st) q) = Inl e"
proof (cases "plan u c")
  case None
  with assms show ?thesis by (simp add: send_content_plan)
next
  case (Some x)
  show ?thesis
  proof (cases x)
    case (Inl e')
    with Some assms plan_raise[of u c e'] show ?thesis by (simp add: send_content_plan)
  next
    case (Inr q)
    with Some assms show ?thesis
      by (cases "fst (T (bot st) q)") (simp_all add: send_content_plan perform_fields)
  qed
qed

subsection \<open>Telegram asks to wait\<close>

text \<open>
  Claim C4. Let the first attempt for a recipient raise \<open>TelegramRetryAfter\<close> with
  the number \<open>seconds\<close>. Then the loop body calls the bot exactly twice, with the
  same request \<open>q\<close> addressed to the recipient: the first attempt, and one call of
  the retry block. Between the two there is a warning and one sleep of exactly
  \<open>seconds\<close> and no other sleep; the clock advances by \<open>seconds\<close> (by nothing
  when \<open>seconds\<close> is negative). After the retry there is no further call and no
  sleep. If the retry returns, the recipient is counted as sent and the error summary is
  unchanged; if the retry raises anything, an error is logged, the recipient is counted
  as failed, the entry \<open>retry_failed\<close> of the error summary is one more than it was
  (one, when the key was absent) and every other entry is what it was.
\<close>

theorem retry_after_waits_and_retries_once:
  assumes "fst (send_content T False user_id content st) = Inl (TelegramRetryAfter seconds)"
  shows "\<exists>q b1 r2 b2.
           T (bot st) q = (Inl (TelegramRetryAfter seconds), b1) \<and> T b1 q = (r2, b2)
           \<and> chat_id q = user_id
           \<and> trace (process_recipient T n delay content idx user_id st) =
               trace st
               @ [Call (clock st) False q (Inl (TelegramRetryAfter seconds)), Log WARNING,
                  Sleep seconds, Call (clock st + max 0 seconds) True q r2]
               @ (if r2 = Inr () then [] else [Log ERROR])
               @ (if idx mod 100 = 0 then [Log INFO] else [])
           \<and> bot (process_recipient T n delay content idx user_id st) = b2
           \<and> clock (process_recipient T n delay content idx user_id st) = clock st + max 0 seconds
           \<and> skipped_count (process_recipient T n delay content idx user_id st) = skipped_count st
           \<and> (r2 = Inr () \<longrightarrow>
                sent_count (process_recipient T n delay content idx user_id st) = sent_count st + 1
                \<and> failed_count (process_recipient T n delay content idx user_id st) = failed_count st
                \<and> error_summary (process_recipient T n delay content idx user_id st)
                     = error_summary st)
           \<and> (r2 \<noteq> Inr () \<longrightarrow>
                sent_count (process_recipient T n delay content idx user_id st) = sent_count st
                \<and> failed_count (process_recipient T n delay content idx user_id st)
                     = failed_count st + 1
                \<and> error_summary (process_recipient T n delay content idx user_id st) ''retry_failed''
                     = Some (tally (error_summary st) ''retry_failed'' + 1)
                \<and> tally (error_summary (process_recipient T n delay content idx user_id st))
                     ''retry_failed'' = tally (error_summary st) ''retry_failed'' + 1
                \<and> (\<forall>k. k \<noteq> ''retry_failed'' \<longrightarrow>
                      error_summary (process_recipient T n delay content idx user_id st) k
                        = error_summary st k))"
proof -
  obtain q where q: "plan user_id content = Some (Inr q)"
    and r1: "fst (T (bot st) q) = Inl (TelegramRetryAfter seconds)"
    using first_attempt_raised[OF assms] by auto
  define b1 where "b1 = snd (T (bot st) q)"
  define r2 where "r2 = fst (T b1 q)"
  define b2 where "b2 = snd (T b1 q)"
  define st' where "st' = process_recipient T n delay content idx user_id st"
  have t1: "T (bot st) q = (Inl (TelegramRetryAfter seconds), b1)"
    using r1 by (simp add: b1_def prod_eq_iff)
  have t2: "T b1 q = (r2, b2)"
    by (simp add: r2_def b2_def)
  have tr: "trace st' =
               trace st
               @ [Call (clock st) False q (Inl (TelegramRetryAfter seconds)), Log WARNING,
                  Sleep seconds, Call (clock st + max 0 seconds) True q r2]
               @ (if r2 = Inr () then [] else [Log ERROR])
               @ (if idx mod 100 = 0 then [Log INFO] else [])"
    unfolding st'_def
    by (cases r2)
       (simp_all add: process_recipient_plan q t1 t2 handler_retry_plan progress_fields
          perform_fields sleep_fields log_fields failed_fields)
  have fl: "bot st' = b2" "clock st' = clock st + max 0 seconds"
    "skipped_count st' = skipped_count st"
    unfolding st'_def
    by (cases r2;
        simp add: process_recipient_plan q t1 t2 handler_retry_plan progress_fields
          perform_fields sleep_fields log_fields failed_fields)+
  have ok: "r2 = Inr () \<longrightarrow>
              sent_count st' = sent_count st + 1 \<and> failed_count st' = failed_count st
              \<and> error_summary st' = error_summary st"
    unfolding st'_def
    by (simp add: process_recipient_plan q t1 t2 handler_retry_plan progress_fields
          perform_fields sleep_fields log_fields)
  have bad: "r2 \<noteq> Inr () \<longrightarrow>
              sent_count st' = sent_count st \<and> failed_count st' = failed_count st + 1
              \<and> error_summary st' ''retry_failed''
                   = Some (tally (error_summary st) ''retry_failed'' + 1)
              \<and> tally (error_summary st') ''retry_failed''
                   = tally (error_summary st) ''retry_failed'' + 1
              \<and> (\<forall>k. k \<noteq> ''retry_failed'' \<longrightarrow> error_summary st' k = error_summary st k)"
    unfolding st'_def
    by (cases r2)
       (simp_all add: process_recipient_plan q t1 t2 handler_retry_plan progress_fields
          perform_fields sleep_fields log_fields failed_fields update_same update_other
          tally_update)
  show ?thesis
    using t1 t2 plan_chat_id[OF q] tr fl ok bad unfolding st'_def by blast
qed

text \<open>
  A bot that asks to wait 2 seconds at its first call, once with a retry that succeeds
  and once with one that raises, in a state where \<open>retry_failed\<close> already stands
  at 1: it stays at 1 in the first run and becomes 2 in the second.
\<close>

theorem retry_after_waits_and_retries_once_witness:
  "(fst (send_content (retry_then (Inr ())) False 7 hi (seen ''retry_failed'' 0))
      = Inl (TelegramRetryAfter 2)
    \<and> trace (process_recipient (retry_then (Inr ())) 1 (1 / 20) hi 1 7 (seen ''retry_failed'' 0)) =
        [Call 0 False (send_message 7 ''hi'' None) (Inl (TelegramRetryAfter 2)),
         Log WARNING, Sleep 2, Call 2 True (send_message 7 ''hi'' None) (Inr ())]
    \<and> sent_count (process_recipient (retry_then (Inr ())) 1 (1 / 20) hi 1 7 (seen ''retry_failed'' 0)) = 1
    \<and> failed_count (process_recipient (retry_then (Inr ())) 1 (1 / 20) hi 1 7 (seen ''retry_failed'' 0)) = 1
    \<and> error_summary (process_recipient (retry_then (Inr ())) 1 (1 / 20) hi 1 7 (seen ''retry_failed'' 0))
         ''retry_failed'' = Some 1)
   \<and> (fst (send_content (retry_then (Inl OtherException)) False 7 hi (seen ''retry_failed'' 0))
         = Inl (TelegramRetryAfter 2)
    \<and> trace (process_recipient (retry_then (Inl OtherException)) 1 (1 / 20) hi 1 7
               (seen ''retry_failed'' 0)) =
        [Call 0 False (send_message 7 ''hi'' None) (Inl (TelegramRetryAfter 2)),
         Log WARNING, Sleep 2, Call 2 True (send_message 7 ''hi'' None) (Inl OtherException),
         Log ERROR]
    \<and> sent_count (process_recipient (retry_then (Inl OtherException)) 1 (1 / 20) hi 1 7
               (seen ''retry_failed'' 0)) = 0
    \<and> failed_count (process_recipient (retry_then (Inl OtherException)) 1 (1 / 20) hi 1 7
               (seen ''retry_failed'' 0)) = 2
    \<and> error_summary (process_recipient (retry_then (Inl OtherException)) 1 (1 / 20) hi 1 7
               (seen ''retry_failed'' 0)) ''retry_failed'' = Some 2
    \<and> error_summary (process_recipient (retry_then (Inl OtherException)) 1 (1 / 20) hi 1 7
               (seen ''retry_failed'' 0)) ''unexpected'' = None)"
  using retry_after_waits_and_retries_once
          [of "retry_then (Inr ())" 7 hi "seen ''retry_failed'' 0" 2 1 "1 / 20" 1]
        retry_after_waits_and_retries_once
          [of "retry_then (Inl OtherException)" 7 hi "seen ''retry_failed'' 0" 2 1 "1 / 20" 1]
  by (simp add: step_eval seen_fields plan_hi retry_then_def update_same update_other tally_one)

subsection \<open>Other errors of the Telegram API\<close>

text \<open>
  Claim C8, refuted as stated. For each of two recipients the bot asks to wait at the
  first attempt and raises a \<open>TelegramAPIError\<close> with the code 400 at the retry.
  Both recipients are counted under the key \<open>retry_failed\<close>, which ends at 2, and
  the key \<open>api_error_400\<close> stays absent.
\<close>

theorem api_error_on_retry_counterexample:
  "trace (snd (projr (send_mass_message (retry_each (Inl (TelegramAPIError (Some 400)))) 0 [7, 8] hi 20))) =
     [Log INFO,
      Call 0 False (send_message 7 ''hi'' None) (Inl (TelegramRetryAfter 2)), Log WARNING, Sleep 2,
      Call 2 True (send_message 7 ''hi'' None) (Inl (TelegramAPIError (Some 400))), Log ERROR,
      Call 2 False (send_message 8 ''hi'' None) (Inl (TelegramRetryAfter 2)), Log WARNING, Sleep 2,
      Call 4 True (send_message 8 ''hi'' None) (Inl (TelegramAPIError (Some 400))), Log ERROR,
      Log INFO]
   \<and> failed_count (fst (projr (send_mass_message (retry_each (Inl (TelegramAPIError (Some 400)))) 0 [7, 8] hi 20))) = 2
   \<and> error_summary (fst (projr (send_mass_message (retry_each (Inl (TelegramAPIError (Some 400)))) 0 [7, 8] hi 20)))
        ''api_error_400'' = None
   \<and> error_summary (fst (projr (send_mass_message (retry_each (Inl (TelegramAPIError (Some 400)))) 0 [7, 8] hi 20)))
        ''retry_failed'' = Some 2"
  by (simp add: send_mass_message_run run_def step_eval plan_hi retry_each_def update_same
        update_other tally_empty tally_update)

text \<open>
  Claim C8, amended. Let the first attempt for a recipient (not the retry) raise a
  \<open>TelegramAPIError\<close> that is neither \<open>TelegramRetryAfter\<close> nor
  \<open>TelegramForbiddenError\<close>. Then the bot is called once for this recipient and
  not again, a warning is logged, nothing sleeps and the recipient is counted as failed.
  The entry of the error summary that goes up by one (to one, when the key was absent)
  is \<open>api_error_\<close> followed by the code when the exception has the attribute
  \<open>error_code\<close>, and \<open>api_error\<close> otherwise; every other entry is what it
  was.
\<close>

theorem api_error_on_first_attempt:
  assumes "fst (send_content T False user_id content st) = Inl (TelegramAPIError error_code)"
  shows "\<exists>q b1.
           T (bot st) q = (Inl (TelegramAPIError error_code), b1) \<and> chat_id q = user_id
           \<and> trace (process_recipient T n delay content idx user_id st) =
               trace st @ [Call (clock st) False q (Inl (TelegramAPIError error_code)), Log WARNING]
               @ (if idx mod 100 = 0 then [Log INFO] else [])
           \<and> bot (process_recipient T n delay content idx user_id st) = b1
           \<and> clock (process_recipient T n delay content idx user_id st) = clock st
           \<and> sent_count (process_recipient T n delay content idx user_id st) = sent_count st
           \<and> skipped_count (process_recipient T n delay content idx user_id st) = skipped_count st
           \<and> failed_count (process_recipient T n delay content idx user_id st) = failed_count st + 1
           \<and> error_summary (process_recipient T n delay content idx user_id st)
                (case error_code of Some c \<Rightarrow> ''api_error_'' @ str_int c | None \<Rightarrow> ''api_error'')
              = Some (tally (error_summary st)
                  (case error_code of Some c \<Rightarrow> ''api_error_'' @ str_int c | None \<Rightarrow> ''api_error'')
                  + 1)
           \<and> tally (error_summary (process_recipient T n delay content idx user_id st))
                (case error_code of Some c \<Rightarrow> ''api_error_'' @ str_int c | None \<Rightarrow> ''api_error'')
              = tally (error_summary st)
                  (case error_code of Some c \<Rightarrow> ''api_error_'' @ str_int c | None \<Rightarrow> ''api_error'')
                + 1
           \<and> (\<forall>k. k \<noteq> (case error_code of Some c \<Rightarrow> ''api_error_'' @ str_int c
                                            | None \<Rightarrow> ''api_error'') \<longrightarrow>
                 error_summary (process_recipient T n delay content idx user_id st) k
                   = error_summary st k)"
proof -
  obtain q where q: "plan user_id content = Some (Inr q)"
    and r1: "fst (T (bot st) q) = Inl (TelegramAPIError error_code)"
    using first_attempt_raised[OF assms] by auto
  have t1: "T (bot st) q = (Inl (TelegramAPIError error_code), snd (T (bot st) q))"
    using r1 by (simp add: prod_eq_iff)
  show ?thesis
    apply (rule exI[of _ q])
    apply (rule exI[of _ "snd (T (bot st) q)"])
    using t1 plan_chat_id[OF q]
    by (simp add: process_recipient_plan q r1 handler_other progress_fields perform_fields
          failed_fields update_same update_other tally_update)
qed

text \<open>
  A bot that always raises the error, with the code 400 and without a code, in a state
  where the key in question already stands at 1: it becomes 2.
\<close>

theorem api_error_on_first_attempt_witness:
  "(fst (send_content (always_raises (TelegramAPIError (Some 400))) False 7 hi
          (seen ''api_error_400'' ()))
      = Inl (TelegramAPIError (Some 400))
    \<and> failed_count (process_recipient (always_raises (TelegramAPIError (Some 400))) 1 (1 / 20) hi 1 7
          (seen ''api_error_400'' ())) = 2
    \<and> error_summary (process_recipient (always_raises (TelegramAPIError (Some 400))) 1 (1 / 20) hi 1 7
          (seen ''api_error_400'' ())) ''api_error_400'' = Some 2
    \<and> error_summary (process_recipient (always_raises (TelegramAPIError (Some 400))) 1 (1 / 20) hi 1 7
          (seen ''api_error_400'' ())) ''api_error'' = None
    \<and> requests True (trace (process_recipient (always_raises (TelegramAPIError (Some 400))) 1
          (1 / 20) hi 1 7 (seen ''api_error_400'' ()))) = [])
   \<and> (fst (send_content (always_raises (TelegramAPIError None)) False 7 hi (seen ''api_error'' ()))
      = Inl (TelegramAPIError None)
    \<and> error_summary (process_recipient (always_raises (TelegramAPIError None)) 1 (1 / 20) hi 1 7
          (seen ''api_error'' ())) ''api_error'' = Some 2)"
  using api_error_on_first_attempt
          [of "always_raises (TelegramAPIError (Some 400))" 7 hi "seen ''api_error_400'' ()"
              "Some 400" 1 "1 / 20" 1]
        api_error_on_first_attempt
          [of "always_raises (TelegramAPIError None)" 7 hi "seen ''api_error'' ()" None 1 "1 / 20" 1]
  by (simp add: step_eval seen_fields plan_hi update_same update_other tally_one str_int_400
        always_raises_def)

subsection \<open>Sending to the channel\<close>

lemma send_to_channel_plan:
  "send_to_channel T ch c st =
     (case plan ch c of
        None \<Rightarrow> (False, log ERROR st)
      | Some (Inl e) \<Rightarrow> (False, log ERROR st)
      | Some (Inr q) \<Rightarrow>
          (case fst (T (bot st) q) of
             Inr _ \<Rightarrow> (True, log INFO (snd (perform T False q st)))
           | Inl e \<Rightarrow> (False, log ERROR (snd (perform T False q st)))))"
  by (simp add: send_to_channel_def send_content_plan perform_def
           split: option.splits sum.splits)

text \<open>
  Claim C9. \<open>send_to_channel\<close> returns a truth value for every content, every bot
  and every answer of the bot; no exception leaves it. With neither text nor media file
  it returns \<open>False\<close> after logging an error, without calling the bot. Otherwise it
  makes the same choice between media and text as the loop body of the broadcast: its
  first-attempt calls are those of \<open>process_recipient\<close> for the same content and
  chat. It never sleeps (the clock does not move) and has no retry call. It returns
  \<open>True\<close> only after one call of the bot that returned normally; whenever it
  returns \<open>False\<close> an error is logged, after at most one call of the bot, which
  raised.
\<close>

theorem send_to_channel_never_raises:
  "(\<not> truthy (text content) \<and> \<not> truthy (media_file_id content) \<longrightarrow>
      send_to_channel T channel_id content st = (False, log ERROR st))
   \<and> requests False (trace (snd (send_to_channel T channel_id content st))) =
       requests False (trace (process_recipient T n delay content idx channel_id st))
   \<and> requests True (trace (snd (send_to_channel T channel_id content st))) =
       requests True (trace st)
   \<and> clock (snd (send_to_channel T channel_id content st)) = clock st
   \<and> (fst (send_to_channel T channel_id content st) \<longrightarrow>
        (\<exists>q b'. T (bot st) q = (Inr (), b') \<and> chat_id q = channel_id
           \<and> snd (send_to_channel T channel_id content st) =
               st\<lparr>bot := b', trace := trace st @ [Call (clock st) False q (Inr ()), Log INFO]\<rparr>))
   \<and> (\<not> fst (send_to_channel T channel_id content st) \<longrightarrow>
        snd (send_to_channel T channel_id content st) = st\<lparr>trace := trace st @ [Log ERROR]\<rparr>
        \<or> (\<exists>q e b'. T (bot st) q = (Inl e, b') \<and> chat_id q = channel_id
              \<and> snd (send_to_channel T channel_id content st) =
                  st\<lparr>bot := b',
                     trace := trace st @ [Call (clock st) False q (Inl e), Log ERROR]\<rparr>))"
proof (cases "plan channel_id content")
  case None
  then show ?thesis
    by (simp add: send_to_channel_plan process_recipient_requests_planned planned_def
          log_fields requests_append log_def)
next
  case (Some x)
  show ?thesis
  proof (cases x)
    case (Inl e)
    with Some show ?thesis
      by (auto simp: send_to_channel_plan process_recipient_requests_planned planned_def
            log_fields requests_append log_def plan_def split: if_splits)
  next
    case (Inr q)
    note q = Some[unfolded Inr]
    have ne: "(\<not> truthy (text content) \<and> \<not> truthy (media_file_id content)) = False"
      using q by (auto simp: plan_def split: if_splits)
    show ?thesis
    proof (cases "fst (T (bot st) q)")
      case (Inl e)
      then have t: "T (bot st) q = (Inl e, snd (T (bot st) q))" by (simp add: prod_eq_iff)
      have "\<exists>q' e' b'. T (bot st) q' = (Inl e', b') \<and> chat_id q' = channel_id
              \<and> snd (send_to_channel T channel_id content st) =
                  st\<lparr>bot := b',
                     trace := trace st @ [Call (clock st) False q' (Inl e'), Log ERROR]\<rparr>"
        apply (rule exI[of _ q])
        apply (rule exI[of _ e])
        apply (rule exI[of _ "snd (T (bot st) q)"])
        using t plan_chat_id[OF q]
        by (simp add: send_to_channel_plan q Inl perform_def log_def)
      then show ?thesis
        using Inl
        by (simp add: send_to_channel_plan q process_recipient_requests_planned planned_def
              log_fields requests_append perform_fields ne)
    next
      case (Inr v)
      then have t: "T (bot st) q = (Inr (), snd (T (bot st) q))" by (simp add: prod_eq_iff)
      have "\<exists>q' b'. T (bot st) q' = (Inr (), b') \<and> chat_id q' = channel_id
           \<and> snd (send_to_channel T channel_id content st) =
               st\<lparr>bot := b', trace := trace st @ [Call (clock st) False q' (Inr ()), Log INFO]\<rparr>"
        apply (rule exI[of _ q])
        apply (rule exI[of _ "snd (T (bot st) q)"])
        using t plan_chat_id[OF q]
        by (simp add: send_to_channel_plan q Inr perform_def log_def)
      then show ?thesis
        using Inr
        by (simp add: send_to_channel_plan q process_recipient_requests_planned planned_def
              log_fields requests_append perform_fields ne)
    qed
  qed
qed

text \<open>
  Empty content; the text \<open>hi\<close> and a photo with a bot that succeeds; the text
  \<open>hi\<close> with a bot that asks to wait; an unsupported media kind.
\<close>

theorem send_to_channel_never_raises_witness:
  "\<not> truthy (text nothing) \<and> \<not> truthy (media_file_id nothing)
   \<and> send_to_channel always_ok 5 nothing st0 = (False, st0\<lparr>trace := [Log ERROR]\<rparr>)
   \<and> send_to_channel always_ok 5 hi st0 =
       (True, st0\<lparr>trace := [Call 0 False (send_message 5 ''hi'' None) (Inr ()), Log INFO]\<rparr>)
   \<and> send_to_channel always_ok 5 photo st0 =
       (True, st0\<lparr>trace := [Call 0 False (send_photo 5 ''f'' None None) (Inr ()), Log INFO]\<rparr>)
   \<and> send_to_channel (always_raises (TelegramRetryAfter 2)) 5 hi st0 =
       (False, st0\<lparr>trace := [Call 0 False (send_message 5 ''hi'' None)
                                (Inl (TelegramRetryAfter 2)), Log ERROR]\<rparr>)
   \<and> send_to_channel always_ok 5 sticker st0 = (False, st0\<lparr>trace := [Log ERROR]\<rparr>)"
  using send_to_channel_never_raises [of nothing always_ok 5 st0 1 "1 / 20" 1]
    send_to_channel_never_raises [of hi always_ok 5 st0 1 "1 / 20" 1]
    send_to_channel_never_raises [of photo always_ok 5 st0 1 "1 / 20" 1]
    send_to_channel_never_raises [of hi "always_raises (TelegramRetryAfter 2)" 5 st0 1 "1 / 20" 1]
    send_to_channel_never_raises [of sticker always_ok 5 st0 1 "1 / 20" 1]
  by (simp add: send_to_channel_plan plan_hi plan_sticker plan_empty plan_photo always_ok_def
        always_raises_def st0_def log_def perform_def)
     (simp add: nothing_def)

subsection \<open>A recipient who has blocked the bot\<close>

lemma tally_Some: "tally m k = n \<Longrightarrow> n \<noteq> 0 \<Longrightarrow> m k = Some n"
  by (cases "m k") (simp_all add: tally_def)

lemma process_recipient_forbidden:
  assumes "sendable c"
    and "\<And>b q. fst (T b q) = (if chat_id q = x then Inl TelegramForbiddenError else Inr ())"
  shows "sent_count (process_recipient T n d c idx u st) = sent_count st + (if u = x then 0 else 1)"
    and "failed_count (process_recipient T n d c idx u st) = failed_count st + (if u = x then 1 else 0)"
    and "skipped_count (process_recipient T n d c idx u st) = skipped_count st"
    and "tally (error_summary (process_recipient T n d c idx u st)) ''blocked''
           = tally (error_summary st) ''blocked'' + (if u = x then 1 else 0)"
    and "requests True (trace (process_recipient T n d c idx u st)) = requests True (trace st)"
proof -
  obtain q where q: "plan u c = Some (Inr q)" using sendable_plan[OF assms(1)] by blast
  have cq: "chat_id q = u" by (rule plan_chat_id[OF q])
  show "sent_count (process_recipient T n d c idx u st) = sent_count st + (if u = x then 0 else 1)"
    and "failed_count (process_recipient T n d c idx u st) = failed_count st + (if u = x then 1 else 0)"
    and "skipped_count (process_recipient T n d c idx u st) = skipped_count st"
    and "tally (error_summary (process_recipient T n d c idx u st)) ''blocked''
           = tally (error_summary st) ''blocked'' + (if u = x then 1 else 0)"
    and "requests True (trace (process_recipient T n d c idx u st)) = requests True (trace st)"
    by (simp_all add: process_recipient_plan q assms(2) cq progress_fields Let_def perform_fields
          sleep_fields handler_other failed_fields tally_update requests_append)
qed

lemma loop_forbidden:
  assumes "sendable c"
    and "\<And>b q. fst (T b q) = (if chat_id q = x then Inl TelegramForbiddenError else Inr ())"
  shows "sent_count (loop T n d c idx us st)
           = sent_count st + int (length us) - int (count_list us x)
       \<and> failed_count (loop T n d c idx us st) = failed_count st + int (count_list us x)
       \<and> skipped_count (loop T n d c idx us st) = skipped_count st
       \<and> tally (error_summary (loop T n d c idx us st)) ''blocked''
            = tally (error_summary st) ''blocked'' + int (count_list us x)
       \<and> requests True (trace (loop T n d c idx us st)) = requests True (trace st)"
  by (induction us arbitrary: idx st) (simp_all add: process_recipient_forbidden[OF assms])

lemma plan_file_only: "plan u file_only = None"
  by (simp add: plan_def file_only_def)

text \<open>
  Claim C5, refuted as stated. Both contents below are non-empty (a media file is
  present), the bot raises \<open>TelegramForbiddenError\<close> for recipient 2 alone and
  succeeds for the others. With \<open>file_only\<close> (a media file without kind and without
  text) all three recipients are skipped, none fails and the key \<open>blocked\<close> is
  absent. With \<open>sticker\<close> (an unsupported kind) all three fail, under another key.
  In both runs the bot is never called.
\<close>

theorem forbidden_for_one_recipient_counterexample:
  "truthy (media_file_id file_only)
   \<and> failed_count (fst (projr (send_mass_message (forbidden_for 2) () [1, 2, 3] file_only 20))) = 0
   \<and> sent_count (fst (projr (send_mass_message (forbidden_for 2) () [1, 2, 3] file_only 20))) = 0
   \<and> skipped_count (fst (projr (send_mass_message (forbidden_for 2) () [1, 2, 3] file_only 20))) = 3
   \<and> error_summary (fst (projr (send_mass_message (forbidden_for 2) () [1, 2, 3] file_only 20)))
        ''blocked'' = None
   \<and> truthy (media_file_id sticker)
   \<and> failed_count (fst (projr (send_mass_message (forbidden_for 2) () [1, 2, 3] sticker 20))) = 3
   \<and> error_summary (fst (projr (send_mass_message (forbidden_for 2) () [1, 2, 3] sticker 20)))
        ''blocked'' = None"
  by (simp add: send_mass_message_run run_def start_fields process_recipient_plan plan_sticker
        plan_file_only progress_fields handler_other failed_fields log_fields update_other)
     (simp add: file_only_def sticker_def)

text \<open>
  Claim C5, amended. For a content that selects a call of the bot (a media file with one
  of the four supported kinds, or, when the media file or the kind is absent, a text):
  if the bot raises \<open>TelegramForbiddenError\<close> for the recipient \<open>x\<close>, who occurs
  once in the list, and succeeds for all others, then the broadcast (with a rate other
  than zero) returns a result with \<open>failed_count = 1\<close>, the key \<open>blocked\<close> at 1,
  \<open>sent_count = N - 1\<close> and nobody skipped. Nothing is retried: the trace has no
  call of the retry block, and one first attempt for each recipient.
\<close>

theorem forbidden_for_one_recipient:
  assumes "rps \<noteq> 0" and "sendable content"
    and "\<forall>b q. fst (T b q) = (if chat_id q = x then Inl TelegramForbiddenError else Inr ())"
    and "count_list recipients x = 1"
  shows "\<exists>r st. send_mass_message T b recipients content rps = Inr (r, st)
           \<and> failed_count r = 1 \<and> error_summary r ''blocked'' = Some 1
           \<and> sent_count r = int (length recipients) - 1 \<and> skipped_count r = 0
           \<and> map chat_id (requests False (trace st)) = recipients
           \<and> requests True (trace st) = []"
proof -
  let ?s = "run T b recipients content rps"
  have t: "\<And>b q. fst (T b q) = (if chat_id q = x then Inl TelegramForbiddenError else Inr ())"
    using assms(3) by simp
  note l = loop_forbidden[OF assms(2) t]
  have c: "sent_count ?s = int (length recipients) - 1" "failed_count ?s = 1"
    "skipped_count ?s = 0" "tally (error_summary ?s) ''blocked'' = 1"
    "requests True (trace ?s) = []"
    by (simp_all add: run_def l start_fields assms(4) tally_empty)
  have b: "error_summary ?s ''blocked'' = Some 1"
    using tally_Some[OF c(4)] by simp
  have f: "map chat_id (requests False (trace ?s)) = recipients"
    unfolding run_def by (simp add: loop_requests_first start_fields assms(2))
  show ?thesis
    by (simp add: send_mass_message_run[OF assms(1)] c b f log_fields requests_append)
qed

text \<open>Three recipients, of whom the second has blocked the bot.\<close>

theorem forbidden_for_one_recipient_witness:
  "(20::int) \<noteq> 0 \<and> sendable hi
   \<and> (\<forall>b q. fst (forbidden_for 2 b q)
              = (if chat_id q = 2 then Inl TelegramForbiddenError else Inr ()))
   \<and> count_list [1, 2, 3] (2::int) = 1
   \<and> (\<exists>r st. send_mass_message (forbidden_for 2) () [1, 2, 3] hi 20 = Inr (r, st)
         \<and> failed_count r = 1 \<and> error_summary r ''blocked'' = Some 1
         \<and> sent_count r = 2 \<and> skipped_count r = 0
         \<and> map chat_id (requests False (trace st)) = [1, 2, 3]
         \<and> requests True (trace st) = [])"
  using forbidden_for_one_recipient [of 20 hi "forbidden_for 2" 2 "[1, 2, 3]" "()"]
  by (simp add: sendable_def hi_def forbidden_for_def)

subsection \<open>The delay between messages\<close>

lemma dispatches_append: "dispatches (xs @ ys) = dispatches xs @ dispatches ys"
  by (induction xs rule: dispatches.induct) simp_all

lemma paced_snoc:
  "paced d (ds @ [x]) =
     (paced d ds \<and> (ds \<noteq> [] \<longrightarrow> first_ok (last ds) \<longrightarrow> fst (last ds) + d \<le> fst x))"
  by (induction d ds rule: paced.induct) auto

lemma paced_nth:
  "paced d ds \<Longrightarrow> Suc i < length ds \<Longrightarrow> first_ok (ds ! i) \<Longrightarrow> fst (ds ! i) + d \<le> fst (ds ! Suc i)"
proof (induction d ds arbitrary: i rule: paced.induct)
  case (1 d x y ds)
  then show ?case by (cases i) auto
qed simp_all

lemma pace_weaken: "pace d ds t w \<Longrightarrow> (w' \<Longrightarrow> w) \<Longrightarrow> pace d ds t w'"
  by (auto simp: pace_def)

lemma pace_snoc_ok:
  "pace d ds t True \<Longrightarrow> (w \<Longrightarrow> t + d \<le> t') \<Longrightarrow> pace d (ds @ [(t, a, r)]) t' w"
  by (auto simp: pace_def paced_snoc)

lemma pace_snoc_bad:
  "pace d ds t True \<Longrightarrow> a \<or> r \<noteq> Inr () \<Longrightarrow> pace d (ds @ [(t, a, r)]) t' w"
  by (auto simp: pace_def paced_snoc first_ok_def)

lemma pace_snoc_bad2:
  "pace d ds t True \<Longrightarrow> r \<noteq> Inr () \<Longrightarrow> pace d (ds @ [(t, False, r), (t', True, r')]) t'' w"
  using pace_snoc_bad[of d "ds @ [(t, False, r)]" t' True r' t'' w]
    pace_snoc_bad[of d ds t False r t' True]
  by simp

lemma origin_snoc: "origin ds t \<Longrightarrow> origin (ds @ [(t, a, r)]) t'"
  by (cases ds) (simp_all add: origin_def)

lemma origin_snoc2: "origin ds t \<Longrightarrow> origin (ds @ [(t, a, r), x]) t'"
  by (cases ds) (simp_all add: origin_def)

text \<open>What one recipient adds to the calls and to the clock.\<close>

lemma process_recipient_timeline:
  "(dispatches (trace (process_recipient T n d c idx u st)) = dispatches (trace st)
      \<and> clock (process_recipient T n d c idx u st) = clock st)
   \<or> (\<exists>t'. dispatches (trace (process_recipient T n d c idx u st))
              = dispatches (trace st) @ [(clock st, False, Inr ())]
          \<and> clock (process_recipient T n d c idx u st) = t'
          \<and> (idx < n \<longrightarrow> clock st + d \<le> t'))
   \<or> (\<exists>e. dispatches (trace (process_recipient T n d c idx u st))
              = dispatches (trace st) @ [(clock st, False, Inl e)])
   \<or> (\<exists>e t' r'. dispatches (trace (process_recipient T n d c idx u st))
              = dispatches (trace st) @ [(clock st, False, Inl e), (t', True, r')])"
proof (cases "plan u c")
  case None
  then show ?thesis
    by (simp add: process_recipient_plan log_fields dispatches_append)
next
  case (Some x)
  show ?thesis
  proof (cases x)
    case (Inl e)
    then have "e = ValueError" using Some plan_raise by blast
    with Some Inl show ?thesis
      by (simp add: process_recipient_plan progress_fields handler_other failed_fields
            dispatches_append)
  next
    case (Inr q)
    note q = Some[unfolded Inr]
    show ?thesis
    proof (cases "fst (T (bot st) q)")
      case (Inr v)
      then show ?thesis
        by (simp add: process_recipient_plan q progress_fields Let_def perform_fields
              sleep_fields dispatches_append)
    next
      case (Inl e)
      show ?thesis
      proof (cases e)
        case (TelegramRetryAfter ra)
        show ?thesis
          by (cases "fst (T (snd (T (bot st) q)) q)")
             (simp_all add: process_recipient_plan q Inl TelegramRetryAfter handler_retry_plan
                progress_fields perform_fields sleep_fields log_fields failed_fields
                dispatches_append)
      qed (simp_all add: process_recipient_plan q Inl handler_other progress_fields
             perform_fields failed_fields dispatches_append)
    qed
  qed
qed

lemma process_recipient_pace:
  assumes "pace d (dispatches (trace st)) (clock st) True"
  shows "pace d (dispatches (trace (process_recipient T n d c idx u st)))
           (clock (process_recipient T n d c idx u st)) (idx < n)"
  using process_recipient_timeline[of T n d c idx u st]
proof (elim disjE exE conjE)
  assume "dispatches (trace (process_recipient T n d c idx u st)) = dispatches (trace st)"
    "clock (process_recipient T n d c idx u st) = clock st"
  then show ?thesis using assms by (simp add: pace_weaken)
next
  fix t'
  assume "dispatches (trace (process_recipient T n d c idx u st))
              = dispatches (trace st) @ [(clock st, False, Inr ())]"
    "clock (process_recipient T n d c idx u st) = t'" "idx < n \<longrightarrow> clock st + d \<le> t'"
  then show ?thesis using assms by (simp add: pace_snoc_ok)
next
  fix e
  assume "dispatches (trace (process_recipient T n d c idx u st))
              = dispatches (trace st) @ [(clock st, False, Inl e)]"
  then show ?thesis using assms by (simp add: pace_snoc_bad)
next
  fix e t' r'
  assume "dispatches (trace (process_recipient T n d c idx u st))
              = dispatches (trace st) @ [(clock st, False, Inl e), (t', True, r')]"
  then show ?thesis using assms by (simp add: pace_snoc_bad2)
qed

lemma process_recipient_origin:
  assumes "origin (dispatches (trace st)) (clock st)"
  shows "origin (dispatches (trace (process_recipient T n d c idx u st)))
           (clock (process_recipient T n d c idx u st))"
  using process_recipient_timeline[of T n d c idx u st] assms
  by (auto simp: origin_snoc origin_snoc2)

lemma loop_pace:
  assumes "pace d (dispatches (trace st)) (clock st) True" and "idx + length us = Suc n"
  shows "paced d (dispatches (trace (loop T n d c idx us st)))"
  using assms
proof (induction us arbitrary: idx st)
  case Nil
  then show ?case by (simp add: pace_def)
next
  case (Cons u us)
  have "pace d (dispatches (trace (process_recipient T n d c idx u st)))
           (clock (process_recipient T n d c idx u st)) (idx < n)"
    by (rule process_recipient_pace[OF Cons.prems(1)])
  show ?case
  proof (cases us)
    case Nil
    with \<open>pace d _ _ (idx < n)\<close> show ?thesis by (simp add: pace_def)
  next
    case (Cons u' us')
    with Cons.prems(2) have "idx < n" by simp
    with \<open>pace d _ _ (idx < n)\<close>
    have "pace d (dispatches (trace (process_recipient T n d c idx u st)))
           (clock (process_recipient T n d c idx u st)) True" by simp
    then show ?thesis
      using Cons.IH[of "process_recipient T n d c idx u st" "Suc idx"] Cons.prems(2) by simp
  qed
qed

lemma loop_origin:
  "origin (dispatches (trace st)) (clock st) \<Longrightarrow>
   origin (dispatches (trace (loop T n d c idx us st))) (clock (loop T n d c idx us st))"
  by (induction us arbitrary: idx st) (simp_all add: process_recipient_origin)

text \<open>
  Claim C7. The docstring of \<open>send_mass_message\<close> promises rate limiting, with
  \<open>rps\<close> the messages per second and \<open>delay\<close> the delay between messages,
  but the only sleep of that delay (lines 79-81) stands in the \<open>try\<close> after
  \<open>sent_count += 1\<close>, so that an exception of the send skips it, and the retry
  block has none. With the default rate of 20 per second and the default burst of 5,
  seven recipients and a bot that raises \<open>TelegramForbiddenError\<close> at every call,
  all seven calls happen at clock 0; the sixth call, the first one past the burst, is
  not \<open>1/20\<close> later than the fifth. After a retry that succeeds (at clock 2, after
  the wait of 2 that Telegram asked for) the call for the next recipient is made at
  clock 2 as well.
\<close>

theorem no_delay_after_failed_or_retried_send:
  "burst default_RateLimits = 5 \<and> broadcast_rps default_RateLimits = 20
   \<and> map fst (dispatches (trace (snd (projr
        (send_mass_message always_forbidden () [1, 2, 3, 4, 5, 6, 7] hi 20)))))
      = [0, 0, 0, 0, 0, 0, 0]
   \<and> \<not> (fst (dispatches (trace (snd (projr
              (send_mass_message always_forbidden () [1, 2, 3, 4, 5, 6, 7] hi 20)))) ! 4)
            + 1 / of_int 20
          \<le> fst (dispatches (trace (snd (projr
              (send_mass_message always_forbidden () [1, 2, 3, 4, 5, 6, 7] hi 20)))) ! 5))
   \<and> dispatches (trace (snd (projr (send_mass_message (retry_then (Inr ())) 0 [1, 2] hi 20))))
      = [(0, False, Inl (TelegramRetryAfter 2)), (2, True, Inr ()), (2, False, Inr ())]"
  by (simp add: send_mass_message_run run_def step_eval plan_hi always_forbidden_def
        retry_then_def dispatches_append default_RateLimits_def)

text \<open>
  What the loop does pace. In every broadcast run with a rate \<open>rps\<close> other than
  zero, nothing delays the first call of the bot (it is made at clock 0), and every call
  of the bot that directly follows a first attempt that succeeded is made at least
  \<open>1 / rps\<close> after that attempt. Nothing is said here of the calls that follow a
  failed or a retried send. The burst of \<open>RateLimits\<close> is not an input of the
  function.
\<close>

theorem sleep_after_each_successful_send:
  assumes "rps \<noteq> 0"
  shows "\<exists>r st. send_mass_message T b recipients content rps = Inr (r, st)
           \<and> (\<forall>i. Suc i < length (dispatches (trace st)) \<and> first_ok (dispatches (trace st) ! i)
                 \<longrightarrow> fst (dispatches (trace st) ! i) + 1 / of_int rps
                       \<le> fst (dispatches (trace st) ! Suc i))
           \<and> (dispatches (trace st) \<noteq> [] \<longrightarrow> fst (hd (dispatches (trace st))) = 0)"
proof -
  let ?s = "run T b recipients content rps"
  have p: "paced (1 / of_int rps) (dispatches (trace ?s))"
    unfolding run_def
    by (rule loop_pace) (simp_all add: pace_def start_fields)
  have "origin (dispatches (trace ?s)) (clock ?s)"
    unfolding run_def
    by (rule loop_origin) (simp add: origin_def start_fields)
  then have o: "dispatches (trace ?s) \<noteq> [] \<longrightarrow> fst (hd (dispatches (trace ?s))) = 0"
    by (simp add: origin_def)
  show ?thesis
    using paced_nth[OF p] o
    by (simp add: send_mass_message_run[OF assms] log_fields dispatches_append)
qed

text \<open>Three recipients and a bot that succeeds: calls at 0, 1/20 and 1/10.\<close>

theorem sleep_after_each_successful_send_witness:
  "(20::int) \<noteq> 0
   \<and> Suc 0 < length (dispatches (trace (snd (projr (send_mass_message always_ok () [1, 2, 3] hi 20)))))
   \<and> first_ok (dispatches (trace (snd (projr (send_mass_message always_ok () [1, 2, 3] hi 20)))) ! 0)
   \<and> fst (dispatches (trace (snd (projr (send_mass_message always_ok () [1, 2, 3] hi 20)))) ! 0)
        + 1 / of_int 20
      \<le> fst (dispatches (trace (snd (projr (send_mass_message always_ok () [1, 2, 3] hi 20)))) ! Suc 0)
   \<and> map fst (dispatches (trace (snd (projr (send_mass_message always_ok () [1, 2, 3] hi 20)))))
        = [0, 1 / 20, 1 / 10]"
  using sleep_after_each_successful_send [of 20 always_ok "()" "[1, 2, 3]" hi]
  by (simp add: send_mass_message_run run_def step_eval plan_hi always_ok_def dispatches_append
        first_ok_def Let_def)

end
